theory Spec2Isabelle
  imports Main "HOL-Library.Sublist"
begin

section \<open>The slogan logger: data model\<close>

text \<open>
  The model follows the latest revision of the package (the one with \<open>NoEmpty\<close>).
  The package keeps its configuration in package-level variables; the model collects
  them in one record that every function takes and returns.
\<close>

subsection \<open>Log levels\<close>

definition Lsilent :: int where "Lsilent = 0"
definition Lemergency :: int where "Lemergency = 1"
definition Lalert :: int where "Lalert = 2"
definition Lcritical :: int where "Lcritical = 3"
definition Lerror :: int where "Lerror = 4"
definition Lwarning :: int where "Lwarning = 5"
definition Lnotice :: int where "Lnotice = 6"
definition Linfo :: int where "Linfo = 7"
definition Ldebug :: int where "Ldebug = 8"
definition Ltrace :: int where "Ltrace = 9"

subsection \<open>The tag array\<close>

text \<open>
  \<open>tags\<close> is a Go array \<open>[10]string\<close>: exactly ten slots, fixed by the type.
  Indexing it with a run-time index outside 0..9 panics; the lookup returns
  \<open>None\<close> there.
\<close>

datatype tagarray =
  TagArray string string string string string string string string string string

fun tags_index :: "tagarray \<Rightarrow> int \<Rightarrow> string option" where
  "tags_index (TagArray t0 t1 t2 t3 t4 t5 t6 t7 t8 t9) i =
     (if i = 0 then Some t0 else if i = 1 then Some t1 else if i = 2 then Some t2
      else if i = 3 then Some t3 else if i = 4 then Some t4 else if i = 5 then Some t5
      else if i = 6 then Some t6 else if i = 7 then Some t7 else if i = 8 then Some t8
      else if i = 9 then Some t9 else None)"

subsection \<open>Maps with Go's zero-value lookup\<close>

text \<open>
  A Go map read at a missing key gives the zero value of the element type:
  the empty string for \<open>formats\<close> and \<open>colors\<close>, \<open>false\<close> for \<open>parts\<close>.
\<close>

definition str_at :: "('k \<rightharpoonup> string) \<Rightarrow> 'k \<Rightarrow> string" where
  "str_at m k = (case m k of None \<Rightarrow> [] | Some v \<Rightarrow> v)"

definition bool_at :: "('k \<rightharpoonup> bool) \<Rightarrow> 'k \<Rightarrow> bool" where
  "bool_at m k = (case m k of None \<Rightarrow> False | Some v \<Rightarrow> v)"

subsection \<open>The underlying logger and its output\<close>

text \<open>
  \<open>writer\<close> stands for the \<open>io.Writer\<close> values a caller can pass: the two standard
  streams of package \<open>os\<close>, which are distinct objects, and any other writer.
\<close>

datatype writer = Stderr | Stdout | OtherWriter nat

record logger =
  lout :: writer
  lprefix :: string
  lflags :: int

subsection \<open>The package state\<close>

record state =
  logger :: logger
  isTerminal :: bool
  tags :: tagarray
  formats :: "string \<rightharpoonup> string"
  colors :: "int \<rightharpoonup> string"
  parts :: "string \<rightharpoonup> bool"
  offset :: int
  Verbosity :: int
  ExitOnError :: bool
  WarningAsError :: bool
  TraceCaller :: bool
  CallerBase :: bool
  Colorize :: bool
  ForceColorize :: bool
  NoEmpty :: bool
  sink :: "string list"

text \<open>
  \<open>sink\<close> is not a variable of the package: it records, in order, the strings handed
  to \<open>logger.Println\<close>, which is how the package writes a finished line.
\<close>

definition Println :: "string \<Rightarrow> state \<Rightarrow> state" where
  "Println Str s = s\<lparr>sink := sink s @ [Str]\<rparr>"

subsection \<open>What the package takes from outside\<close>

text \<open>
  Values passed to \<open>fmt.Sprintf\<close> and to \<open>Trace\<close> (Go's \<open>interface{}\<close>).
\<close>

datatype gval = VString string | VInt int | VList "gval list"

text \<open>
  The functions of other packages that the logger calls are parameters of the model:
  \<open>Sprintf\<close> is \<open>fmt.Sprintf\<close>, \<open>color name\<close> is the function \<open>name\<close> of package
  \<open>github.com/bclicn/color\<close>, \<open>Caller\<close> gives the file and line that
  \<open>runtime.Caller\<close> reports for a skip depth (the empty string and 0 when it
  finds no frame), \<open>Base\<close> is \<open>path.Base\<close>. None of them panics.
\<close>

record ext =
  Sprintf :: "string \<Rightarrow> gval list \<Rightarrow> string"
  color :: "string \<Rightarrow> string \<Rightarrow> string"
  Caller :: "int \<Rightarrow> string \<times> int"
  Base :: "string \<Rightarrow> string"

text \<open>How a call ends: it returns, the process exits with a status, or it panics.\<close>

datatype outcome = Return state | Exit int state | Panic state

fun final :: "outcome \<Rightarrow> state" where
  "final (Return s) = s"
| "final (Exit c s) = s"
| "final (Panic s) = s"

fun exit_status :: "outcome \<Rightarrow> int option" where
  "exit_status (Exit c s) = Some c"
| "exit_status (Return s) = None"
| "exit_status (Panic s) = None"

fun panicked :: "outcome \<Rightarrow> bool" where
  "panicked (Panic s) = True"
| "panicked (Return s) = False"
| "panicked (Exit c s) = False"

section \<open>Configuration\<close>

definition SetVerbosity :: "int \<Rightarrow> state \<Rightarrow> state" where
  "SetVerbosity level s = s\<lparr>Verbosity := level\<rparr>"

definition SetExitOnError :: "bool \<Rightarrow> state \<Rightarrow> state" where
  "SetExitOnError mode s = s\<lparr>ExitOnError := mode\<rparr>"

definition SetWarningAsError :: "bool \<Rightarrow> state \<Rightarrow> state" where
  "SetWarningAsError mode s = s\<lparr>WarningAsError := mode\<rparr>"

definition SetTraceCaller :: "bool \<Rightarrow> state \<Rightarrow> state" where
  "SetTraceCaller mode s = s\<lparr>TraceCaller := mode\<rparr>"

definition SetColor :: "bool \<Rightarrow> state \<Rightarrow> state" where
  "SetColor mode s = s\<lparr>Colorize := mode\<rparr>"

definition SetForceColor :: "bool \<Rightarrow> state \<Rightarrow> state" where
  "SetForceColor mode s = s\<lparr>ForceColorize := mode\<rparr>"

definition SetNoEmpty :: "bool \<Rightarrow> state \<Rightarrow> state" where
  "SetNoEmpty mode s = s\<lparr>NoEmpty := mode\<rparr>"

text \<open>The table setters return the former table together with the new state.\<close>

definition GetColors :: "state \<Rightarrow> (int \<rightharpoonup> string)" where
  "GetColors s = colors s"

definition SetColors :: "(int \<rightharpoonup> string) \<Rightarrow> state \<Rightarrow> (int \<rightharpoonup> string) \<times> state" where
  "SetColors n s = (let old = colors s in (old, s\<lparr>colors := n\<rparr>))"

definition GetTags :: "state \<Rightarrow> tagarray" where
  "GetTags s = tags s"

definition SetTags :: "tagarray \<Rightarrow> state \<Rightarrow> tagarray \<times> state" where
  "SetTags n s = (let old = tags s in (old, s\<lparr>tags := n\<rparr>))"

definition GetFormats :: "state \<Rightarrow> (string \<rightharpoonup> string)" where
  "GetFormats s = formats s"

definition SetFormats :: "(string \<rightharpoonup> string) \<Rightarrow> state \<Rightarrow> (string \<rightharpoonup> string) \<times> state" where
  "SetFormats n s = (let old = formats s in (old, s\<lparr>formats := n\<rparr>))"

definition GetParts :: "state \<Rightarrow> (string \<rightharpoonup> bool)" where
  "GetParts s = parts s"

definition SetParts :: "(string \<rightharpoonup> bool) \<Rightarrow> state \<Rightarrow> (string \<rightharpoonup> bool) \<times> state" where
  "SetParts n s = (let old = parts s in (old, s\<lparr>parts := n\<rparr>))"

text \<open>
  \<open>SetOutput\<close>: the test is \<open>w != os.Stderr || w != os.Stdout\<close>, written here as it
  is in the source.
\<close>

definition SetOutput :: "writer \<Rightarrow> state \<Rightarrow> state" where
  "SetOutput w s =
     (let s1 = (if w \<noteq> Stderr \<or> w \<noteq> Stdout then s\<lparr>isTerminal := False\<rparr> else s)
      in s1\<lparr>logger := (logger s1)\<lparr>lout := w\<rparr>\<rparr>)"

definition IsTerminal :: "state \<Rightarrow> bool" where
  "IsTerminal s = isTerminal s"

definition incr_offset :: "state \<Rightarrow> state" where
  "incr_offset s = s\<lparr>offset := offset s + 1\<rparr>"

definition decr_offset :: "state \<Rightarrow> state" where
  "decr_offset s = s\<lparr>offset := offset s - 1\<rparr>"

section \<open>Colorization\<close>

text \<open>
  \<open>setcolor\<close> is a switch on \<open>colors[level]\<close> with one case per style name, each
  calling the function of package \<open>color\<close> that has the name of the case, and a
  default that returns the string as it is. \<open>style_names\<close> lists the cases in the
  order of the source.
\<close>

definition style_names :: "string list" where
  "style_names =
     [''Black'', ''Red'', ''Green'', ''Yellow'', ''Blue'', ''Purple'', ''Cyan'',
      ''LightGray'', ''DarkGray'', ''LightRed'', ''LightGreen'', ''LightYellow'',
      ''LightBlue'', ''LightPurple'', ''LightCyan'', ''White'',
      ''BBlack'', ''BRed'', ''BGreen'', ''BYellow'', ''BBlue'', ''BPurple'', ''BCyan'',
      ''BLightGray'', ''BDarkGray'', ''BLightRed'', ''BLightGreen'', ''BLightYellow'',
      ''BLightBlue'', ''BLightPurple'', ''BLightCyan'', ''BWhite'',
      ''GBlack'', ''GRed'', ''GGreen'', ''GYellow'', ''GBlue'', ''GPurple'', ''GCyan'',
      ''GLightGray'', ''GDarkGray'', ''GLightRed'', ''GLightGreen'', ''GLightYellow'',
      ''GLightBlue'', ''GLightPurple'', ''GLightCyan'', ''GWhite'',
      ''Bold'', ''Dim'', ''Underline'', ''Invert'', ''Hide'', ''Blink'']"

definition setcolor :: "ext \<Rightarrow> state \<Rightarrow> string \<Rightarrow> int \<Rightarrow> string \<Rightarrow> string" where
  "setcolor x s what level str =
     (let name = str_at (colors s) level
      in if name \<in> set style_names then color x name str else str)"

definition colorize :: "ext \<Rightarrow> state \<Rightarrow> string \<Rightarrow> int \<Rightarrow> string \<Rightarrow> string" where
  "colorize x s what level str =
     (if isTerminal s = False \<and> ForceColorize s = False then str
      else if Colorize s = True \<and> bool_at (parts s) what = True
           then setcolor x s what level str
           else str)"

section \<open>Formatting and logging\<close>

text \<open>
  \<open>logfmt\<close> reads \<open>tags[level]\<close> first, which panics for a level outside 0..9
  (\<open>None\<close>). \<open>runtime.Caller\<close> is called whether or not the caller is shown.
  In the branch without caller the third argument is the empty string.
  (\<open>fn0\<close> is the source's \<open>fn_\<close>.)
\<close>

definition logfmt :: "ext \<Rightarrow> state \<Rightarrow> int \<Rightarrow> string \<Rightarrow> string option" where
  "logfmt x s level log =
     (let Fmt = str_at (formats s) ''default''
      in case tags_index (tags s) level of
           None \<Rightarrow> None
         | Some Tag \<Rightarrow>
             (let (fn0, line) = Caller x (3 + offset s)
              in if TraceCaller s = True
                 then (let fn = (if CallerBase s = True then Base x fn0 else fn0);
                           Caller' = colorize x s ''caller'' 10
                                       (Sprintf x (str_at (formats s) ''where'') [VString fn, VInt line])
                       in Some (Sprintf x (str_at (formats s) ''caller'')
                                  [VString (colorize x s ''tag'' level Tag),
                                   VString (colorize x s ''log'' level log),
                                   VString Caller']))
                 else Some (Sprintf x Fmt
                              [VString (colorize x s ''tag'' level Tag),
                               VString (colorize x s ''log'' level log),
                               VString []])))"

text \<open>
  \<open>Log\<close> and \<open>Debug\<close> call each other: the exit branch of \<open>Log\<close> reports through
  \<open>Debug\<close>. \<open>os.Exit\<close> does not run the deferred \<open>decr_offset\<close> calls; a panic does.
\<close>

function Log :: "ext \<Rightarrow> int \<Rightarrow> string \<Rightarrow> state \<Rightarrow> outcome"
  and Debug :: "ext \<Rightarrow> string \<Rightarrow> state \<Rightarrow> outcome" where
  "Log x level log s =
     (case (if Verbosity s \<ge> level
            then (let allow = (if NoEmpty s = True \<and> length log = 0 then False else True)
                  in if allow
                     then (case logfmt x s level log of
                             None \<Rightarrow> None
                           | Some Str \<Rightarrow> Some (Println Str s))
                     else Some s)
            else Some s) of
        None \<Rightarrow> Panic s
      | Some s1 \<Rightarrow>
          if (level < Lwarning \<or> (level = Lwarning \<and> WarningAsError s1 = True))
             \<and> ExitOnError s1 = True
          then (case Debug x (Sprintf x (str_at (formats s1) ''fatal'') [VInt level])
                       (incr_offset (incr_offset s1)) of
                  Return s2 \<Rightarrow> Exit level s2
                | Exit c s2 \<Rightarrow> Exit c s2
                | Panic s2 \<Rightarrow> Panic (decr_offset (decr_offset s2)))
          else Return s1)"
| "Debug x log s = Log x Ldebug log s"
  by pat_completeness auto
termination
  by (relation "measure (\<lambda>v. case v of
          Inl (x, level, log, s) \<Rightarrow> (if level \<le> 5 then 2 else 0)
        | Inr (x, log, s) \<Rightarrow> 1)")
     (auto simp: Lwarning_def Ldebug_def)

declare Log.simps [simp del]

declare Debug.simps [simp del]

subsection \<open>The entry points per level\<close>

definition Silent :: "ext \<Rightarrow> string \<Rightarrow> state \<Rightarrow> outcome" where
  "Silent x log s = Log x Lsilent log s"

definition Emergency :: "ext \<Rightarrow> string \<Rightarrow> state \<Rightarrow> outcome" where
  "Emergency x log s = Log x Lemergency log s"

definition Alert :: "ext \<Rightarrow> string \<Rightarrow> state \<Rightarrow> outcome" where
  "Alert x log s = Log x Lalert log s"

definition Critical :: "ext \<Rightarrow> string \<Rightarrow> state \<Rightarrow> outcome" where
  "Critical x log s = Log x Lcritical log s"

definition Error :: "ext \<Rightarrow> string \<Rightarrow> state \<Rightarrow> outcome" where
  "Error x log s = Log x Lerror log s"

definition Warning :: "ext \<Rightarrow> string \<Rightarrow> state \<Rightarrow> outcome" where
  "Warning x log s = Log x Lwarning log s"

definition Notice :: "ext \<Rightarrow> string \<Rightarrow> state \<Rightarrow> outcome" where
  "Notice x log s = Log x Lnotice log s"

definition Info :: "ext \<Rightarrow> string \<Rightarrow> state \<Rightarrow> outcome" where
  "Info x log s = Log x Linfo log s"

text \<open>\<open>Trace\<close> picks the \<open>empty\<close> format when the value prints as \<open>[]\<close>.\<close>

definition Trace :: "ext \<Rightarrow> gval \<Rightarrow> state \<Rightarrow> outcome" where
  "Trace x trace s =
     (if Sprintf x ''%v'' [trace] = ''[]''
      then Log x Ltrace (Sprintf x (str_at (formats s) ''empty'') [trace]) s
      else Log x Ltrace (Sprintf x (str_at (formats s) ''trace'') [trace]) s)"

text \<open>
  \<open>TraceCall\<close> sets \<open>TraceCaller\<close>, defers \<open>SetTraceCaller(false)\<close> and calls
  \<open>Trace\<close>. The deferred call runs when \<open>Trace\<close> returns or panics, not when the
  process exits.
\<close>

definition TraceCall :: "ext \<Rightarrow> gval \<Rightarrow> state \<Rightarrow> outcome" where
  "TraceCall x trace s =
     (case Trace x trace (s\<lparr>TraceCaller := True\<rparr>) of
        Return s1 \<Rightarrow> Return (SetTraceCaller False s1)
      | Exit c s1 \<Rightarrow> Exit c s1
      | Panic s1 \<Rightarrow> Panic (SetTraceCaller False s1))"

section \<open>The initial state\<close>

text \<open>
  The package-level initialisers. \<open>term\<close> is the answer of
  \<open>terminal.IsTerminal\<close> for standard error at start-up.
\<close>

definition default_tags :: tagarray where
  "default_tags =
     TagArray [] ''emergency'' ''alert    '' ''critical '' ''error    ''
              ''warning  '' ''notice   '' ''info     '' ''debug    '' ''trace    ''"

definition default_formats :: "string \<rightharpoonup> string" where
  "default_formats =
     [''fatal'' \<mapsto> ''Immediate exit with code %d'',
      ''trace'' \<mapsto> ''%[1]T'' @ [CHR 0x0A] @ '' %%v: %[1]v'' @ [CHR 0x0A, CHR 0x0A]
                   @ ''%%v+: %+[1]v'' @ [CHR 0x0A, CHR 0x0A] @ ''%%#v: %#[1]v'',
      ''empty'' \<mapsto> ''%#v'',
      ''runtime'' \<mapsto> ''OS:%s ARCH:%s CPU:%d COMPILER:%s ROOT:%s'',
      ''default'' \<mapsto> ''   %[1]s %[2]s'',
      ''caller'' \<mapsto> ''   %[1]s %[3]s'' @ [CHR 0x09] @ '' %[2]s'',
      ''where'' \<mapsto> ''%s:%d'',
      ''alldone'' \<mapsto> ''All done in : %s'',
      ''elapsed'' \<mapsto> ''Elapsed time : %s'']"

definition default_colors :: "int \<rightharpoonup> string" where
  "default_colors =
     [10 \<mapsto> ''Underline'', 9 \<mapsto> ''DarkGray'', 8 \<mapsto> ''DarkGray'', 7 \<mapsto> ''Purple'',
      6 \<mapsto> ''Green'', 5 \<mapsto> ''Yellow'', 4 \<mapsto> ''LightRed'', 3 \<mapsto> ''Red'',
      2 \<mapsto> ''BLightRed'', 1 \<mapsto> ''BRed'', 0 \<mapsto> []]"

definition default_parts :: "string \<rightharpoonup> bool" where
  "default_parts =
     [''caller'' \<mapsto> True, ''tag'' \<mapsto> True, ''log'' \<mapsto> False, ''prefix'' \<mapsto> False]"

definition init_state :: "bool \<Rightarrow> state" where
  "init_state term =
     \<lparr> logger = \<lparr> lout = Stderr, lprefix = [], lflags = 0 \<rparr>,
       isTerminal = term,
       tags = default_tags,
       formats = default_formats,
       colors = default_colors,
       parts = default_parts,
       offset = 0,
       Verbosity = Lwarning,
       ExitOnError = False,
       WarningAsError = False,
       TraceCaller = False,
       CallerBase = True,
       Colorize = True,
       ForceColorize = False,
       NoEmpty = False,
       sink = [] \<rparr>"

section \<open>A sample environment\<close>

text \<open>
  One concrete choice of the outside functions, to run the model on concrete inputs.
  \<open>sample_Sprintf\<close> covers the part of \<open>fmt.Sprintf\<close> that the templates
  \<open>default\<close>, \<open>caller\<close>, \<open>where\<close> and \<open>fatal\<close> use: the verbs \<open>%s\<close>, \<open>%d\<close>
  and \<open>%v\<close>, alone or with a one-digit argument index as in \<open>%[2]s\<close>, and \<open>%%\<close>.
  Any other text is copied. The results below are stated for every environment;
  this one only serves to evaluate them.
\<close>

fun show_nat :: "nat \<Rightarrow> string" where
  "show_nat n =
     (if n < 10 then [''0123456789'' ! n]
      else show_nat (n div 10) @ [''0123456789'' ! (n mod 10)])"

declare show_nat.simps [simp del]

definition show_int :: "int \<Rightarrow> string" where
  "show_int i = (if i < 0 then CHR ''-'' # show_nat (nat (- i)) else show_nat (nat i))"

fun join_sp :: "string list \<Rightarrow> string" where
  "join_sp [] = []"
| "join_sp [a] = a"
| "join_sp (a # b # cs) = a @ '' '' @ join_sp (b # cs)"

fun render :: "gval \<Rightarrow> string" where
  "render (VString v) = v"
| "render (VInt i) = show_int i"
| "render (VList vs) = ''['' @ join_sp (map render vs) @ '']''"

definition is_verb :: "char \<Rightarrow> bool" where
  "is_verb c = (c = CHR ''s'' \<or> c = CHR ''d'' \<or> c = CHR ''v'')"

definition digit_of :: "char \<Rightarrow> nat option" where
  "digit_of c = map_of (zip ''0123456789'' [0 ..< 10]) c"

definition render_arg :: "gval list \<Rightarrow> nat \<Rightarrow> string" where
  "render_arg a i = (if i < length a then render (a ! i) else ''%!(BADINDEX)'')"

fun sample_fmt :: "string \<Rightarrow> gval list \<Rightarrow> nat \<Rightarrow> string" where
  "sample_fmt [] a n = []"
| "sample_fmt [c] a n = [c]"
| "sample_fmt (c # d # cs) a n =
     (if c \<noteq> CHR ''%'' then c # sample_fmt (d # cs) a n
      else if d = CHR ''%'' then CHR ''%'' # sample_fmt cs a n
      else if is_verb d then render_arg a n @ sample_fmt cs a (n + 1)
      else (case cs of
              i # r # v # cs' \<Rightarrow>
                (case digit_of i of
                   Some k \<Rightarrow>
                     if d = CHR ''['' \<and> r = CHR '']'' \<and> is_verb v \<and> 0 < k
                     then render_arg a (k - 1) @ sample_fmt cs' a k
                     else c # sample_fmt (d # cs) a n
                 | None \<Rightarrow> c # sample_fmt (d # cs) a n)
            | _ \<Rightarrow> c # sample_fmt (d # cs) a n))"

definition sample_Sprintf :: "string \<Rightarrow> gval list \<Rightarrow> string" where
  "sample_Sprintf f a = sample_fmt f a 0"

text \<open>
  The colour functions wrap the string in an escape sequence that carries the style
  name; the call stack holds one fixed location; \<open>sample_Base\<close> keeps what
  follows the last slash.
\<close>

definition sample_color :: "string \<Rightarrow> string \<Rightarrow> string" where
  "sample_color name str = [CHR 0x1B] @ ''['' @ name @ ''m'' @ str @ [CHR 0x1B] @ ''[0m''"

definition sample_Base :: "string \<Rightarrow> string" where
  "sample_Base p = rev (takeWhile (\<lambda>c. c \<noteq> CHR ''/'') (rev p))"

definition sample_ext :: ext where
  "sample_ext =
     \<lparr> Sprintf = sample_Sprintf,
       color = sample_color,
       Caller = (\<lambda>skip. (''/src/app/main.go'', 17)),
       Base = sample_Base \<rparr>"

section \<open>Notions used in the statements\<close>

text \<open>
  The parts of \<open>Log\<close>, named: \<open>emit\<close> is its first statement (the verbosity gate,
  the test for an empty string and the write), \<open>should_exit\<close> is the condition of its
  second statement with the constant \<open>Lwarning\<close> written out, \<open>fatal_text\<close> is the
  string it passes to \<open>Debug\<close> there. \<open>message_lines\<close> is what a call at a level
  in 0..9 appends to the sink for its own message, \<open>fatal_lines\<close> what the report
  before the exit appends.
\<close>

definition emit :: "ext \<Rightarrow> int \<Rightarrow> string \<Rightarrow> state \<Rightarrow> state option" where
  "emit x level log s =
     (if Verbosity s \<ge> level
      then (if NoEmpty s \<and> log = [] then Some s
            else (case logfmt x s level log of
                    None \<Rightarrow> None
                  | Some Str \<Rightarrow> Some (Println Str s)))
      else Some s)"

definition should_exit :: "int \<Rightarrow> state \<Rightarrow> bool" where
  "should_exit level s \<longleftrightarrow>
     (level < 5 \<or> (level = 5 \<and> WarningAsError s)) \<and> ExitOnError s"

definition fatal_text :: "ext \<Rightarrow> int \<Rightarrow> state \<Rightarrow> string" where
  "fatal_text x level s = Sprintf x (str_at (formats s) ''fatal'') [VInt level]"

definition message_lines :: "ext \<Rightarrow> int \<Rightarrow> string \<Rightarrow> state \<Rightarrow> string list" where
  "message_lines x level log s =
     (if Verbosity s \<ge> level \<and> \<not> (NoEmpty s \<and> log = [])
      then (case logfmt x s level log of None \<Rightarrow> [] | Some Str \<Rightarrow> [Str])
      else [])"

definition fatal_lines :: "ext \<Rightarrow> int \<Rightarrow> state \<Rightarrow> string list" where
  "fatal_lines x level s =
     message_lines x Ldebug (fatal_text x level s) (incr_offset (incr_offset s))"

section \<open>How Log behaves at the levels 0 to 9\<close>

lemma Log_emit:
  "Log x level log s =
     (case emit x level log s of
        None \<Rightarrow> Panic s
      | Some s1 \<Rightarrow>
          if should_exit level s1
          then (case Debug x (fatal_text x level s1) (incr_offset (incr_offset s1)) of
                  Return s2 \<Rightarrow> Exit level s2
                | Exit c s2 \<Rightarrow> Exit c s2
                | Panic s2 \<Rightarrow> Panic (decr_offset (decr_offset s2)))
          else Return s1)"
  by (auto simp: Log.simps [of x level log s] emit_def should_exit_def fatal_text_def
        Lwarning_def Let_def split: option.splits)

lemma Debug_emit:
  "Debug x log s =
     (case emit x 8 log s of None \<Rightarrow> Panic s | Some s1 \<Rightarrow> Return s1)"
  by (simp add: Debug.simps Ldebug_def Log_emit [of x 8] should_exit_def
        split: option.splits)

lemma tags_index_in_range:
  "0 \<le> i \<Longrightarrow> i \<le> 9 \<Longrightarrow> \<exists>t. tags_index T i = Some t"
  by (cases T) (simp, arith)

lemma tags_index_out_of_range:
  "i < 0 \<or> 9 < i \<Longrightarrow> tags_index T i = None"
  by (cases T) auto

lemma logfmt_in_range:
  assumes "0 \<le> level" "level \<le> 9"
  shows "\<exists>Str. logfmt x s level log = Some Str"
proof -
  obtain t where "tags_index (tags s) level = Some t"
    using tags_index_in_range [OF assms] by blast
  then show ?thesis
    by (simp add: logfmt_def Let_def split: prod.splits)
qed

lemma logfmt_out_of_range:
  "level < 0 \<or> 9 < level \<Longrightarrow> logfmt x s level log = None"
  by (simp add: logfmt_def tags_index_out_of_range)

lemma colorize_sink: "colorize x (s\<lparr>sink := k\<rparr>) what level str = colorize x s what level str"
  by (simp add: colorize_def setcolor_def)

lemma logfmt_sink: "logfmt x (s\<lparr>sink := k\<rparr>) level log = logfmt x s level log"
  by (simp add: logfmt_def colorize_sink Let_def split: option.splits prod.splits)

lemma message_lines_sink:
  "message_lines x level log (s\<lparr>sink := k\<rparr>) = message_lines x level log s"
  by (auto simp: message_lines_def logfmt_sink)

lemma emit_in_range:
  assumes "0 \<le> level" "level \<le> 9"
  shows "emit x level log s = Some (s\<lparr>sink := sink s @ message_lines x level log s\<rparr>)"
proof -
  obtain Str where "logfmt x s level log = Some Str"
    using logfmt_in_range [OF assms] by blast
  then show ?thesis
    by (simp add: emit_def message_lines_def Println_def)
qed

lemma Debug_result:
  "Debug x log s = Return (s\<lparr>sink := sink s @ message_lines x Ldebug log s\<rparr>)"
  by (simp add: Debug_emit emit_in_range Ldebug_def)

lemma Log_in_range:
  assumes "0 \<le> level" "level \<le> 9"
  shows "Log x level log s =
     (if should_exit level s
      then Exit level
             ((incr_offset (incr_offset s))
                \<lparr>sink := sink s @ message_lines x level log s @ fatal_lines x level s\<rparr>)
      else Return (s\<lparr>sink := sink s @ message_lines x level log s\<rparr>))"
proof -
  let ?k = "sink s @ message_lines x level log s"
  let ?s1 = "s\<lparr>sink := ?k\<rparr>"
  have e: "emit x level log s = Some ?s1"
    by (rule emit_in_range [OF assms])
  have se: "should_exit level ?s1 = should_exit level s"
    by (simp add: should_exit_def)
  have ft: "fatal_text x level ?s1 = fatal_text x level s"
    by (simp add: fatal_text_def)
  have io: "incr_offset (incr_offset ?s1) = (incr_offset (incr_offset s))\<lparr>sink := ?k\<rparr>"
    by (simp add: incr_offset_def)
  have d: "Debug x (fatal_text x level s) (incr_offset (incr_offset ?s1)) =
           Return ((incr_offset (incr_offset s))\<lparr>sink := ?k @ fatal_lines x level s\<rparr>)"
    unfolding io Debug_result message_lines_sink fatal_lines_def by simp
  show ?thesis
    by (simp add: Log_emit [of x level log s] e se ft d)
qed

lemma fatal_lines_low_verbosity:
  "Verbosity s < 8 \<Longrightarrow> fatal_lines x level s = []"
  by (simp add: fatal_lines_def message_lines_def incr_offset_def Ldebug_def)

lemma fatal_lines_explicit:
  "\<exists>D. logfmt x (incr_offset (incr_offset s)) Ldebug (fatal_text x level s) = Some D \<and>
        fatal_lines x level s =
          (if Ldebug \<le> Verbosity s \<and> \<not> (NoEmpty s \<and> fatal_text x level s = [])
           then [D] else [])"
proof -
  have "\<exists>D. logfmt x (incr_offset (incr_offset s)) Ldebug (fatal_text x level s) = Some D"
    by (rule logfmt_in_range) (simp_all add: Ldebug_def)
  then obtain D where
    "logfmt x (incr_offset (incr_offset s)) Ldebug (fatal_text x level s) = Some D" ..
  then show ?thesis
    by (auto simp: fatal_lines_def message_lines_def incr_offset_def)
qed

section \<open>How Log behaves outside the levels 0 to 9\<close>

lemma Log_out_of_range:
  assumes "level < 0 \<or> 9 < level"
  shows "Log x level log s =
     (if Verbosity s \<ge> level \<and> \<not> (NoEmpty s \<and> log = []) then Panic s
      else if should_exit level s
      then Exit level ((incr_offset (incr_offset s))\<lparr>sink := sink s @ fatal_lines x level s\<rparr>)
      else Return s)"
proof -
  have e: "emit x level log s =
      (if Verbosity s \<ge> level \<and> \<not> (NoEmpty s \<and> log = []) then None else Some s)"
    by (simp add: emit_def logfmt_out_of_range [OF assms])
  have k: "sink (incr_offset (incr_offset s)) = sink s"
    by (simp add: incr_offset_def)
  have d: "Debug x (fatal_text x level s) (incr_offset (incr_offset s)) =
           Return ((incr_offset (incr_offset s))\<lparr>sink := sink s @ fatal_lines x level s\<rparr>)"
    by (simp add: Debug_result k fatal_lines_def)
  show ?thesis
    by (simp add: Log_emit [of x level log s] e d)
qed

section \<open>The verbosity gate\<close>

text \<open>The line that \<open>logfmt\<close> renders, written out for a tag that the lookup found.\<close>

lemma logfmt_line:
  assumes "tags_index (tags s) level = Some Tag"
  shows "logfmt x s level log =
     Some (if TraceCaller s = True
           then Sprintf x (str_at (formats s) ''caller'')
                  [VString (colorize x s ''tag'' level Tag),
                   VString (colorize x s ''log'' level log),
                   VString (colorize x s ''caller'' 10
                      (Sprintf x (str_at (formats s) ''where'')
                         [VString (if CallerBase s = True
                                   then Base x (fst (Caller x (3 + offset s)))
                                   else fst (Caller x (3 + offset s))),
                          VInt (snd (Caller x (3 + offset s)))]))]
           else Sprintf x (str_at (formats s) ''default'')
                  [VString (colorize x s ''tag'' level Tag),
                   VString (colorize x s ''log'' level log),
                   VString []])"
  using assms by (simp add: logfmt_def Let_def split: prod.splits)

text \<open>
  Claim C1. For a level in 0..9 and suppress-empty off, \<open>Log\<close> renders the message
  and writes it to the sink if and only if the verbosity is at least the level. The
  rendered line is the \<open>default\<close> format applied to the colourised tag of the level
  and the colourised message, or with caller tracing on the \<open>caller\<close> format applied
  to these two and the colourised location; it is appended to the sink exactly when
  the verbosity is at least the level, and below the level the call writes nothing
  at all.
\<close>

theorem Log_emits_iff_verbosity:
  assumes "0 \<le> level" "level \<le> 9" "NoEmpty s = False"
  shows "\<exists>Tag line.
           tags_index (tags s) level = Some Tag \<and>
           line = (if TraceCaller s = True
                   then Sprintf x (str_at (formats s) ''caller'')
                          [VString (colorize x s ''tag'' level Tag),
                           VString (colorize x s ''log'' level log),
                           VString (colorize x s ''caller'' 10
                              (Sprintf x (str_at (formats s) ''where'')
                                 [VString (if CallerBase s = True
                                           then Base x (fst (Caller x (3 + offset s)))
                                           else fst (Caller x (3 + offset s))),
                                  VInt (snd (Caller x (3 + offset s)))]))]
                   else Sprintf x (str_at (formats s) ''default'')
                          [VString (colorize x s ''tag'' level Tag),
                           VString (colorize x s ''log'' level log),
                           VString []]) \<and>
           (prefix (sink s @ [line]) (sink (final (Log x level log s)))
              \<longleftrightarrow> Verbosity s \<ge> level) \<and>
           (Verbosity s < level \<longrightarrow> sink (final (Log x level log s)) = sink s)"
proof -
  obtain Tag where Tag: "tags_index (tags s) level = Some Tag"
    using tags_index_in_range [OF assms(1,2)] by blast
  define line where "line =
     (if TraceCaller s = True
      then Sprintf x (str_at (formats s) ''caller'')
             [VString (colorize x s ''tag'' level Tag),
              VString (colorize x s ''log'' level log),
              VString (colorize x s ''caller'' 10
                 (Sprintf x (str_at (formats s) ''where'')
                    [VString (if CallerBase s = True
                              then Base x (fst (Caller x (3 + offset s)))
                              else fst (Caller x (3 + offset s))),
                     VInt (snd (Caller x (3 + offset s)))]))]
      else Sprintf x (str_at (formats s) ''default'')
             [VString (colorize x s ''tag'' level Tag),
              VString (colorize x s ''log'' level log),
              VString []])"
  have lf: "logfmt x s level log = Some line"
    unfolding line_def by (rule logfmt_line [OF Tag])
  have g: "(prefix (sink s @ [line]) (sink (final (Log x level log s)))
              \<longleftrightarrow> Verbosity s \<ge> level) \<and>
           (Verbosity s < level \<longrightarrow> sink (final (Log x level log s)) = sink s)"
  proof (cases "Verbosity s \<ge> level")
    case True
    then have "message_lines x level log s = [line]"
      using lf assms(3) by (simp add: message_lines_def)
    then show ?thesis
      using True by (simp add: Log_in_range [OF assms(1,2)])
  next
    case False
    then have m: "message_lines x level log s = []"
      by (simp add: message_lines_def)
    have f: "should_exit level s \<Longrightarrow> fatal_lines x level s = []"
      using False by (intro fatal_lines_low_verbosity) (auto simp: should_exit_def)
    show ?thesis
      using False m f by (auto simp: Log_in_range [OF assms(1,2)])
  qed
  show ?thesis
    using Tag line_def g by blast
qed

text \<open>
  At the initial verbosity 5, a critical message (3) is written as the line
  \<open>"   critical  boom"\<close> and a notice (6) is not written.
\<close>

theorem Log_emits_iff_verbosity_witness:
  "(0::int) \<le> 3 \<and> (3::int) \<le> 9 \<and> (6::int) \<le> 9 \<and> NoEmpty (init_state False) = False \<and>
   Verbosity (init_state False) = 5 \<and>
   prefix (sink (init_state False) @ [''   critical  boom''])
          (sink (final (Log sample_ext 3 ''boom'' (init_state False)))) \<and>
   \<not> prefix (sink (init_state False) @ [''   notice    boom''])
          (sink (final (Log sample_ext 6 ''boom'' (init_state False)))) \<and>
   sink (final (Log sample_ext 6 ''boom'' (init_state False))) = sink (init_state False)"
proof -
  let ?s = "init_state False"
  have h: "NoEmpty ?s = False" and v: "Verbosity ?s = 5" and t: "TraceCaller ?s = False"
    by (simp_all add: init_state_def Lwarning_def)
  have t3: "tags_index (tags ?s) 3 = Some ''critical ''"
    and t6: "tags_index (tags ?s) 6 = Some ''notice   ''"
    by (simp_all add: init_state_def default_tags_def)
  have l3: "Sprintf sample_ext (str_at (formats ?s) ''default'')
              [VString (colorize sample_ext ?s ''tag'' 3 ''critical ''),
               VString (colorize sample_ext ?s ''log'' 3 ''boom''), VString []]
            = ''   critical  boom''"
    by code_simp
  have l6: "Sprintf sample_ext (str_at (formats ?s) ''default'')
              [VString (colorize sample_ext ?s ''tag'' 6 ''notice   ''),
               VString (colorize sample_ext ?s ''log'' 6 ''boom''), VString []]
            = ''   notice    boom''"
    by code_simp
  show ?thesis
    using Log_emits_iff_verbosity [of 3 ?s sample_ext "''boom''"]
      Log_emits_iff_verbosity [of 6 ?s sample_ext "''boom''"] h v
    by (simp add: t t3 t6 l3 l6)
qed

section \<open>Exit on error\<close>

text \<open>
  Claim C2, as stated, asks that whenever the exit fires one more line, the report in
  the \<open>fatal\<close> format, is emitted. The report goes through \<open>Debug\<close>, so it is
  subject to the verbosity gate: at the initial verbosity 5 an error message with
  exit-on-error set ends the process with status 4 and the sink holds the message
  only.
\<close>

theorem fatal_report_needs_debug_verbosity:
  "exit_status (Log sample_ext 4 ''boom'' ((init_state False)\<lparr>ExitOnError := True\<rparr>)) = Some 4 \<and>
   sink (final (Log sample_ext 4 ''boom'' ((init_state False)\<lparr>ExitOnError := True\<rparr>))) =
     [''   error     boom''] \<and>
   ''   debug     Immediate exit with code 4''
     \<notin> set (sink (final (Log sample_ext 4 ''boom'' ((init_state False)\<lparr>ExitOnError := True\<rparr>))))"
  by code_simp

text \<open>
  Claim C2, amended. With exit-on-error set, a call at level 1..4, or at level 5 when
  warning-as-error is set, ends the process with the level as exit status; before the
  exit the \<open>fatal\<close> format applied to the level is logged at debug level with the
  stack offset raised by two, which appends one line exactly when the verbosity
  is at least 8 (and the text is not suppressed as empty). A call at level 6..9, or at
  level 5 when warning-as-error is unset, returns after writing its message.
\<close>

theorem exit_on_error_by_level:
  assumes "ExitOnError s = True" "1 \<le> level" "level \<le> 9"
  shows "((level \<le> 4 \<or> (level = 5 \<and> WarningAsError s = True)) \<longrightarrow>
            exit_status (Log x level log s) = Some level \<and>
            (\<exists>D. logfmt x (incr_offset (incr_offset s)) Ldebug
                    (Sprintf x (str_at (formats s) ''fatal'') [VInt level]) = Some D \<and>
                 sink (final (Log x level log s)) =
                   sink s @ message_lines x level log s @
                   (if Ldebug \<le> Verbosity s \<and>
                       \<not> (NoEmpty s \<and> Sprintf x (str_at (formats s) ''fatal'') [VInt level] = [])
                    then [D] else []))) \<and>
         ((6 \<le> level \<or> (level = 5 \<and> WarningAsError s = False)) \<longrightarrow>
            Log x level log s = Return (s\<lparr>sink := sink s @ message_lines x level log s\<rparr>))"
proof -
  have r: "0 \<le> level" using assms(2) by simp
  note L = Log_in_range [OF r assms(3)]
  obtain D where D: "logfmt x (incr_offset (incr_offset s)) Ldebug (fatal_text x level s) = Some D"
    and F: "fatal_lines x level s =
          (if Ldebug \<le> Verbosity s \<and> \<not> (NoEmpty s \<and> fatal_text x level s = [])
           then [D] else [])"
    using fatal_lines_explicit by blast
  have a: "level \<le> 4 \<or> (level = 5 \<and> WarningAsError s = True) \<Longrightarrow> should_exit level s"
    using assms(1) by (auto simp: should_exit_def)
  have b: "6 \<le> level \<or> (level = 5 \<and> WarningAsError s = False) \<Longrightarrow> \<not> should_exit level s"
    by (auto simp: should_exit_def)
  show ?thesis
    using a b D F by (auto simp: L fatal_text_def)
qed


text \<open>
  With verbosity 9 and exit-on-error set: an error ends the process with status 4,
  an info message returns.
\<close>

theorem exit_on_error_by_level_witness:
  "ExitOnError ((init_state False)\<lparr>ExitOnError := True, Verbosity := 9\<rparr>) = True \<and>
   (1::int) \<le> 4 \<and> (4::int) \<le> 9 \<and>
   exit_status (Log sample_ext 4 ''boom''
      ((init_state False)\<lparr>ExitOnError := True, Verbosity := 9\<rparr>)) = Some 4 \<and>
   Log sample_ext 7 ''boom'' ((init_state False)\<lparr>ExitOnError := True, Verbosity := 9\<rparr>) =
     Return ((init_state False)\<lparr>ExitOnError := True, Verbosity := 9, sink := [''   info      boom'']\<rparr>)"
proof -
  let ?s = "(init_state False)\<lparr>ExitOnError := True, Verbosity := 9\<rparr>"
  have h: "ExitOnError ?s = True" by simp
  have m: "message_lines sample_ext 7 ''boom'' ?s = [''   info      boom'']"
    by code_simp
  have k: "sink ?s = []" by (simp add: init_state_def)
  show ?thesis
    using exit_on_error_by_level [OF h, of 4 sample_ext "''boom''"]
      exit_on_error_by_level [OF h, of 7 sample_ext "''boom''"] m k
    by simp
qed

text \<open>
  Claim C3 says that a call at the silent level never ends the process. The exit
  condition of \<open>Log\<close> is \<open>level < Lwarning\<close>, which holds for level 0: with
  exit-on-error set, \<open>Silent\<close> writes its line and ends the process with status 0.
\<close>

theorem Silent_exits_with_status_0:
  "exit_status (Silent sample_ext ''kept'' ((init_state False)\<lparr>ExitOnError := True\<rparr>)) = Some 0 \<and>
   sink (final (Silent sample_ext ''kept'' ((init_state False)\<lparr>ExitOnError := True\<rparr>))) =
     [''    kept'']"
  by code_simp

section \<open>Empty messages\<close>

text \<open>
  Claim C4, as stated, asks that nothing is written to the sink for an empty message
  under suppress-empty. When the exit fires and the verbosity admits debug lines, the
  report before the exit is written: at verbosity 9, an empty error message leaves
  one line in the sink.
\<close>

theorem empty_message_can_write_fatal_report:
  "Verbosity ((init_state False)\<lparr>Verbosity := 9, NoEmpty := True, ExitOnError := True\<rparr>) \<ge> 4 \<and>
   NoEmpty ((init_state False)\<lparr>Verbosity := 9, NoEmpty := True, ExitOnError := True\<rparr>) = True \<and>
   sink ((init_state False)\<lparr>Verbosity := 9, NoEmpty := True, ExitOnError := True\<rparr>) = [] \<and>
   sink (final (Log sample_ext 4 []
      ((init_state False)\<lparr>Verbosity := 9, NoEmpty := True, ExitOnError := True\<rparr>))) =
     [''   debug     Immediate exit with code 4'']"
  by code_simp

text \<open>
  Claim C4, amended. For a level in 0..9 with the verbosity at least the level, with
  suppress-empty on and an empty message: the message is neither rendered nor
  written, and the only line the call can append is the report before an exit, when
  the exit fires and the verbosity admits debug lines; the exit decision is the same
  as for any other message at that level. Level 0 under exit-on-error is left aside.
\<close>

theorem empty_message_suppressed:
  assumes "0 \<le> level" "level \<le> 9" "Verbosity s \<ge> level" "NoEmpty s = True"
    and "1 \<le> level \<or> ExitOnError s = False"
  shows "(\<exists>D. logfmt x (incr_offset (incr_offset s)) Ldebug
                 (Sprintf x (str_at (formats s) ''fatal'') [VInt level]) = Some D \<and>
              sink (final (Log x level [] s)) =
                sink s @ (if exit_status (Log x level [] s) \<noteq> None \<and> Ldebug \<le> Verbosity s \<and>
                             Sprintf x (str_at (formats s) ''fatal'') [VInt level] \<noteq> []
                          then [D] else [])) \<and>
         exit_status (Log x level [] s) = exit_status (Log x level log s) \<and>
         \<not> panicked (Log x level [] s)"
proof -
  have m: "message_lines x level [] s = []"
    using assms(4) by (simp add: message_lines_def)
  obtain D where D: "logfmt x (incr_offset (incr_offset s)) Ldebug (fatal_text x level s) = Some D"
    and F: "fatal_lines x level s =
          (if Ldebug \<le> Verbosity s \<and> \<not> (NoEmpty s \<and> fatal_text x level s = [])
           then [D] else [])"
    using fatal_lines_explicit by blast
  show ?thesis
    using D F assms(4) by (auto simp: Log_in_range [OF assms(1,2)] m fatal_text_def)
qed

text \<open>
  At the initial verbosity 5 with suppress-empty and exit-on-error set, an empty
  error message writes nothing and ends as a non-empty one does, with status 4.
\<close>

theorem empty_message_suppressed_witness:
  "(0::int) \<le> 4 \<and> (4::int) \<le> 9 \<and> (1::int) \<le> 4 \<and>
   Verbosity ((init_state False)\<lparr>NoEmpty := True, ExitOnError := True\<rparr>) \<ge> 4 \<and>
   NoEmpty ((init_state False)\<lparr>NoEmpty := True, ExitOnError := True\<rparr>) = True \<and>
   sink (final (Log sample_ext 4 [] ((init_state False)\<lparr>NoEmpty := True, ExitOnError := True\<rparr>))) = [] \<and>
   exit_status (Log sample_ext 4 [] ((init_state False)\<lparr>NoEmpty := True, ExitOnError := True\<rparr>)) =
     exit_status (Log sample_ext 4 ''boom'' ((init_state False)\<lparr>NoEmpty := True, ExitOnError := True\<rparr>)) \<and>
   exit_status (Log sample_ext 4 ''boom'' ((init_state False)\<lparr>NoEmpty := True, ExitOnError := True\<rparr>)) = Some 4"
proof -
  let ?s = "(init_state False)\<lparr>NoEmpty := True, ExitOnError := True\<rparr>"
  have v: "Verbosity ?s \<ge> 4" and n: "NoEmpty ?s = True" and k: "sink ?s = []"
    and d: "\<not> Ldebug \<le> Verbosity ?s"
    by (simp_all add: init_state_def Lwarning_def Ldebug_def)
  have e: "exit_status (Log sample_ext 4 ''boom'' ?s) = Some 4"
    by code_simp
  have l: "(1::int) \<le> 4 \<or> ExitOnError ?s = False" by simp
  show ?thesis
    using empty_message_suppressed [OF _ _ v n l, of sample_ext "''boom''"] v n k d e
    by auto
qed

section \<open>The colour decorator\<close>

lemma empty_not_style: "[] \<notin> set style_names"
  by (simp add: style_names_def)

text \<open>
  Claim C5. \<open>colorize\<close> returns the text as it is when the output is not a terminal
  and colour is not forced, or when colour is off, or when the part is not enabled
  in the parts table, or when the style name of the level is empty or is none of
  the names \<open>setcolor\<close> knows. Each condition suffices alone.
\<close>

theorem colorize_pass_through:
  assumes "(isTerminal s = False \<and> ForceColorize s = False)
         \<or> Colorize s = False
         \<or> bool_at (parts s) part = False
         \<or> str_at (colors s) level = []
         \<or> str_at (colors s) level \<notin> set style_names"
  shows "colorize x s part level text = text"
  using assms empty_not_style by (auto simp: colorize_def setcolor_def)

text \<open>
  One input for each of the five conditions, and one where none holds and the text
  does change.
\<close>

theorem colorize_pass_through_witness:
  "colorize sample_ext (init_state False) ''tag'' 4 ''error'' = ''error'' \<and>
   colorize sample_ext ((init_state True)\<lparr>Colorize := False\<rparr>) ''tag'' 4 ''error'' = ''error'' \<and>
   colorize sample_ext (init_state True) ''log'' 4 ''boom'' = ''boom'' \<and>
   colorize sample_ext (init_state True) ''tag'' 0 ''x'' = ''x'' \<and>
   colorize sample_ext ((init_state True)\<lparr>colors := [4 \<mapsto> ''Pink'']\<rparr>) ''tag'' 4 ''error'' = ''error'' \<and>
   colorize sample_ext (init_state True) ''tag'' 4 ''error'' \<noteq> ''error''"
proof -
  have 1: "isTerminal (init_state False) = False \<and> ForceColorize (init_state False) = False"
    by (simp add: init_state_def)
  have 2: "Colorize ((init_state True)\<lparr>Colorize := False\<rparr>) = False"
    by simp
  have 3: "bool_at (parts (init_state True)) ''log'' = False"
    by (simp add: init_state_def default_parts_def bool_at_def)
  have 4: "str_at (colors (init_state True)) 0 = []"
    by (simp add: init_state_def default_colors_def str_at_def)
  have 5: "str_at (colors ((init_state True)\<lparr>colors := [4 \<mapsto> ''Pink'']\<rparr>)) 4 \<notin> set style_names"
    by (simp add: str_at_def style_names_def)
  have 6: "colorize sample_ext (init_state True) ''tag'' 4 ''error'' \<noteq> ''error''"
    by code_simp
  show ?thesis
    using colorize_pass_through [of "init_state False" "''tag''" 4 sample_ext "''error''"]
      colorize_pass_through [of "(init_state True)\<lparr>Colorize := False\<rparr>" "''tag''" 4 sample_ext "''error''"]
      colorize_pass_through [of "init_state True" "''log''" 4 sample_ext "''boom''"]
      colorize_pass_through [of "init_state True" "''tag''" 0 sample_ext "''x''"]
      colorize_pass_through [of "(init_state True)\<lparr>colors := [4 \<mapsto> ''Pink'']\<rparr>" "''tag''" 4 sample_ext "''error''"]
      1 2 3 4 5 6
    by blast
qed

section \<open>The table setters\<close>

text \<open>
  Claim C6. \<open>SetTags\<close>, \<open>SetFormats\<close>, \<open>SetColors\<close> and \<open>SetParts\<close> return the
  table that was installed before the call, and the getter called next returns the
  table that was passed.
\<close>

theorem table_setters_swap:
  "fst (SetTags nt s) = GetTags s \<and> GetTags (snd (SetTags nt s)) = nt \<and>
   fst (SetFormats nf s) = GetFormats s \<and> GetFormats (snd (SetFormats nf s)) = nf \<and>
   fst (SetColors nc s) = GetColors s \<and> GetColors (snd (SetColors nc s)) = nc \<and>
   fst (SetParts np s) = GetParts s \<and> GetParts (snd (SetParts np s)) = np"
  by (simp add: SetTags_def GetTags_def SetFormats_def GetFormats_def
        SetColors_def GetColors_def SetParts_def GetParts_def)

section \<open>Redirecting the output\<close>

text \<open>
  Claim C7 says that redirecting to standard error or standard output keeps the
  terminal flag. The test in \<open>SetOutput\<close> joins the two comparisons with \<open>||\<close>, and
  no writer is both streams, so the flag is cleared for every writer: after
  \<open>SetOutput\<close> on either standard stream a flag that was true is false.
\<close>

theorem SetOutput_standard_stream_clears_terminal:
  "IsTerminal (init_state True) = True \<and>
   IsTerminal (SetOutput Stderr (init_state True)) = False \<and>
   IsTerminal (SetOutput Stdout (init_state True)) = False"
  by (simp add: IsTerminal_def SetOutput_def init_state_def)

text \<open>The flag after \<open>SetOutput\<close> on standard error differs from the flag before.\<close>

theorem SetOutput_standard_stream_clears_terminal_witness:
  "IsTerminal (SetOutput Stderr (init_state True)) \<noteq> IsTerminal (init_state True)"
  using SetOutput_standard_stream_clears_terminal by simp

section \<open>Tracing with the caller for one call\<close>

text \<open>
  Claim C8 says that \<open>TraceCall\<close> leaves the caller-tracing mode as it found it. The
  deferred call is \<open>SetTraceCaller(false)\<close>, whatever the mode was: with the mode
  on before the call, \<open>TraceCall\<close> returns with the mode off.
\<close>

theorem TraceCall_leaves_tracing_off:
  "TraceCaller ((init_state False)\<lparr>TraceCaller := True\<rparr>) = True \<and>
   exit_status (TraceCall sample_ext (VString ''x'') ((init_state False)\<lparr>TraceCaller := True\<rparr>)) = None \<and>
   \<not> panicked (TraceCall sample_ext (VString ''x'') ((init_state False)\<lparr>TraceCaller := True\<rparr>)) \<and>
   TraceCaller (final (TraceCall sample_ext (VString ''x'')
      ((init_state False)\<lparr>TraceCaller := True\<rparr>))) = False"
  by code_simp

section \<open>Levels outside the tag array\<close>

text \<open>
  Claim C9. For a level in 0..9 the tag lookup is in bounds and \<open>Log\<close> does not
  panic. For a level outside 0..9 that passes the verbosity gate with a message that
  is not suppressed as empty, the lookup is out of bounds and \<open>Log\<close> panics.
\<close>

theorem tag_lookup_bounds:
  "(0 \<le> level \<and> level \<le> 9 \<longrightarrow>
      tags_index (tags s) level \<noteq> None \<and> \<not> panicked (Log x level log s)) \<and>
   ((level < 0 \<or> 9 < level) \<and> Verbosity s \<ge> level \<and> \<not> (NoEmpty s = True \<and> length log = 0) \<longrightarrow>
      tags_index (tags s) level = None \<and> Log x level log s = Panic s)"
proof (intro conjI impI)
  assume r: "0 \<le> level \<and> level \<le> 9"
  then show "tags_index (tags s) level \<noteq> None"
    using tags_index_in_range [of level "tags s"] by auto
  from r show "\<not> panicked (Log x level log s)"
    by (simp add: Log_in_range)
next
  assume o: "(level < 0 \<or> 9 < level) \<and> Verbosity s \<ge> level \<and> \<not> (NoEmpty s = True \<and> length log = 0)"
  then show "tags_index (tags s) level = None"
    by (simp add: tags_index_out_of_range)
  from o show "Log x level log s = Panic s"
    by (simp add: Log_out_of_range)
qed

text \<open>
  \<open>Log(10, msg)\<close> at verbosity 10 and \<open>Log(-1, msg)\<close> at the initial verbosity
  panic; \<open>Log(9, msg)\<close> does not.
\<close>

theorem tag_lookup_bounds_witness:
  "Log sample_ext 10 ''boom'' ((init_state False)\<lparr>Verbosity := 10\<rparr>) =
     Panic ((init_state False)\<lparr>Verbosity := 10\<rparr>) \<and>
   Log sample_ext (- 1) ''boom'' (init_state False) = Panic (init_state False) \<and>
   \<not> panicked (Log sample_ext 9 ''boom'' ((init_state False)\<lparr>Verbosity := 10\<rparr>))"
  using tag_lookup_bounds [of 10 "(init_state False)\<lparr>Verbosity := 10\<rparr>" sample_ext "''boom''"]
    tag_lookup_bounds [of "- 1" "init_state False" sample_ext "''boom''"]
    tag_lookup_bounds [of 9 "(init_state False)\<lparr>Verbosity := 10\<rparr>" sample_ext "''boom''"]
  by (simp add: init_state_def Lwarning_def)

section \<open>The prefix entry of the parts table\<close>

lemma colorize_prefix_entry:
  "what \<noteq> ''prefix'' \<Longrightarrow>
   colorize x (s\<lparr>parts := (parts s)(''prefix'' := v)\<rparr>) what level str = colorize x s what level str"
  by (simp add: colorize_def setcolor_def bool_at_def)

lemma logfmt_prefix_entry:
  "logfmt x (s\<lparr>parts := (parts s)(''prefix'' := v)\<rparr>) level log = logfmt x s level log"
  by (simp add: logfmt_def colorize_prefix_entry Let_def split: option.splits prod.splits)

lemma message_lines_prefix_entry:
  "message_lines x level log (s\<lparr>parts := (parts s)(''prefix'' := v)\<rparr>) = message_lines x level log s"
  by (auto simp: message_lines_def logfmt_prefix_entry)

lemma fatal_lines_prefix_entry:
  "fatal_lines x level (s\<lparr>parts := (parts s)(''prefix'' := v)\<rparr>) = fatal_lines x level s"
proof -
  have "incr_offset (incr_offset (s\<lparr>parts := (parts s)(''prefix'' := v)\<rparr>)) =
        (incr_offset (incr_offset s))\<lparr>parts := (parts (incr_offset (incr_offset s)))(''prefix'' := v)\<rparr>"
    by (simp add: incr_offset_def)
  then show ?thesis
    by (simp add: fatal_lines_def fatal_text_def message_lines_prefix_entry)
qed

text \<open>
  Claim C10. Changing only the entry \<open>prefix\<close> of the parts table (to true, to false
  or to absent) changes neither the line that \<open>logfmt\<close> renders nor what a call of
  \<open>Log\<close> writes, nor how the call ends: \<open>logfmt\<close> asks \<open>colorize\<close> for the parts
  \<open>tag\<close>, \<open>log\<close> and \<open>caller\<close> only.
\<close>

theorem prefix_part_has_no_effect:
  "logfmt x (s\<lparr>parts := (parts s)(''prefix'' := v)\<rparr>) level log = logfmt x s level log \<and>
   sink (final (Log x level log (s\<lparr>parts := (parts s)(''prefix'' := v)\<rparr>))) =
     sink (final (Log x level log s)) \<and>
   exit_status (Log x level log (s\<lparr>parts := (parts s)(''prefix'' := v)\<rparr>)) =
     exit_status (Log x level log s) \<and>
   panicked (Log x level log (s\<lparr>parts := (parts s)(''prefix'' := v)\<rparr>)) =
     panicked (Log x level log s)"
proof (cases "0 \<le> level \<and> level \<le> 9")
  case True
  then show ?thesis
    by (simp add: Log_in_range logfmt_prefix_entry message_lines_prefix_entry
          fatal_lines_prefix_entry should_exit_def)
next
  case False
  then have "level < 0 \<or> 9 < level" by auto
  then show ?thesis
    by (simp add: Log_out_of_range logfmt_prefix_entry fatal_lines_prefix_entry should_exit_def)
qed

end
